theory Spec2Isabelle
  imports Main "HOL-Library.Multiset"
begin

section \<open>Values of the host language\<close>

text \<open>
  The file \<^verbatim>\<open>src/tasks/version.ts\<close> is written against three collaborators: promises
  wrapped into \<^verbatim>\<open>ResultAsync\<close> (package neverthrow), the commit analysis of
  conventional-recommended-bump and the version arithmetic of the semver package.
  A settled promise either resolves with a value or rejects with whatever was thrown;
  a \<^verbatim>\<open>ResultAsync\<close> is modelled by the \<^verbatim>\<open>Result\<close> it settles to, since the
  file awaits every step before the next one starts.
\<close>

datatype thrown = ErrorInstance string string | NonError string
  \<comment> \<open>an \<^verbatim>\<open>Error\<close> object with its name and message, or any other thrown value
      (given by its string conversion)\<close>

datatype 'a promise = Resolves 'a | Rejects thrown

datatype Error = Error string
  \<comment> \<open>\<^verbatim>\<open>new Error(message)\<close>: the only error type of the file\<close>

datatype ('a, 'e) Result = Ok 'a | Err 'e

definition fromPromise :: "'a promise \<Rightarrow> (thrown \<Rightarrow> 'e) \<Rightarrow> ('a, 'e) Result" where
  "fromPromise p errorFn = (case p of Resolves v \<Rightarrow> Ok v | Rejects e \<Rightarrow> Err (errorFn e))"

definition mapResult :: "('a, 'e) Result \<Rightarrow> ('a \<Rightarrow> 'b) \<Rightarrow> ('b, 'e) Result" where
  "mapResult r f = (case r of Ok v \<Rightarrow> Ok (f v) | Err e \<Rightarrow> Err e)"

definition andThen :: "('a, 'e) Result \<Rightarrow> ('a \<Rightarrow> ('b, 'e) Result) \<Rightarrow> ('b, 'e) Result" where
  "andThen r f = (case r of Ok v \<Rightarrow> f v | Err e \<Rightarrow> Err e)"

text \<open>String conversion of a thrown value inside a template literal.\<close>

fun thrownToString :: "thrown \<Rightarrow> string" where
  "thrownToString (ErrorInstance name msg) =
     (if name = [] then msg else if msg = [] then name else name @ '': '' @ msg)"
| "thrownToString (NonError s) = s"

text \<open>
  Counters are JavaScript numbers holding small non-negative integers; they are natural
  numbers here, and a template literal prints them in decimal.
\<close>

definition digitChar :: "nat \<Rightarrow> char" where
  "digitChar d = ''0123456789'' ! d"

function showNat :: "nat \<Rightarrow> string" where
  "showNat n = (if n < 10 then [digitChar n] else showNat (n div 10) @ [digitChar (n mod 10)])"
  by pat_completeness auto
termination
  by (relation "measure id") auto

declare showNat.simps [simp del]

section \<open>Commit records\<close>

record CommitReference =
  raw :: string
  action :: "string option"
  owner :: "string option"
  repository :: "string option"
  issue :: string
  prefix :: string

record CommitNote =
  title :: string
  text' :: string

type_synonym CommitMeta = "string \<rightharpoonup> string option"

text \<open>
  \<^verbatim>\<open>Commit = CommitBase & CommitMeta\<close>: the fixed fields and, beside them, the open
  mapping of captured header fields (\<^verbatim>\<open>type\<close>, \<^verbatim>\<open>scope\<close>, ...), each a string or null.
\<close>

record Commit =
  merge :: "string option"
  revert :: "CommitMeta option"
  header :: "string option"
  body :: "string option"
  footer :: "string option"
  notes' :: "CommitNote list"
  mentions :: "string list"
  references :: "CommitReference list"
  meta :: CommitMeta

datatype ReleaseType = Patch | Minor | Major

record BumperRecommendation =
  level :: nat
  reason :: string
  releaseType :: "ReleaseType option"

section \<open>The commit classifier\<close>

text \<open>
  The loop of \<^verbatim>\<open>analyzeBumpLevel\<close> over its three locals \<^verbatim>\<open>level\<close>, \<^verbatim>\<open>breakings\<close>
  and \<^verbatim>\<open>features\<close>.
\<close>

fun analyzeLoop :: "Commit list \<Rightarrow> nat \<times> nat \<times> nat \<Rightarrow> nat \<times> nat \<times> nat" where
  "analyzeLoop [] (lvl, breakings, features) = (lvl, breakings, features)"
| "analyzeLoop (commit # commits) (lvl, breakings, features) =
     (if length (notes' commit) > 0 then
        analyzeLoop commits (0, breakings + length (notes' commit), features)
      else if meta commit ''type'' = Some (Some ''feat'') then
        analyzeLoop commits ((if lvl = 2 then 1 else lvl), breakings, features + 1)
      else analyzeLoop commits (lvl, breakings, features))"

definition analyzeBumpLevel :: "Commit list \<Rightarrow> BumperRecommendation" where
  "analyzeBumpLevel commits =
     (case analyzeLoop commits (2, 0, 0) of (lvl, breakings, features) \<Rightarrow>
        \<lparr> level = lvl,
          reason =
            (if breakings = 1
             then ''There is '' @ showNat breakings @ '' BREAKING CHANGE and '' @ showNat features @ '' features''
             else ''There are '' @ showNat breakings @ '' BREAKING CHANGES and '' @ showNat features @ '' features''),
          releaseType = None \<rparr>)"

section \<open>Semantic versions\<close>

text \<open>
  Modelled from the spec: the parser and the increment function of the semver package,
  which \<^verbatim>\<open>version.ts\<close> imports and which is not part of the sources. The grammar is
  the spec's \<^verbatim>\<open>MAJOR.MINOR.PATCH[-pre][+build]\<close> with the identifiers of the semver
  standard, the increment rules are the spec's (section 4.2) with the standard's rule
  for a version that carries a pre-release suffix, and a version that does not parse
  gives null, as the type \<^verbatim>\<open>string | null\<close> in \<^verbatim>\<open>version.ts\<close> says. Only the release
  types of \<^verbatim>\<open>RELEASE_TYPES\<close> are modelled. What the package accepts beyond the spec's
  grammar (a leading \<^verbatim>\<open>v\<close>, blanks around the version) and its bounds on the length
  of the text and on the size of the numbers are not modelled.
\<close>

definition isDigit :: "char \<Rightarrow> bool" where
  "isDigit c = (c \<in> set ''0123456789'')"

definition isLetter :: "char \<Rightarrow> bool" where
  "isLetter c = (c \<in> set ''abcdefghijklmnopqrstuvwxyzABCDEFGHIJKLMNOPQRSTUVWXYZ'')"

definition isIdentifierChar :: "char \<Rightarrow> bool" where
  "isIdentifierChar c = (isDigit c \<or> isLetter c \<or> c = CHR ''-'')"

definition isNumericIdentifier :: "string \<Rightarrow> bool" where
  "isNumericIdentifier s = (s = ''0'' \<or> (s \<noteq> [] \<and> list_all isDigit s \<and> hd s \<noteq> CHR ''0''))"

definition isBuildIdentifier :: "string \<Rightarrow> bool" where
  "isBuildIdentifier s = (s \<noteq> [] \<and> list_all isIdentifierChar s)"

definition isPrereleaseIdentifier :: "string \<Rightarrow> bool" where
  "isPrereleaseIdentifier s =
     (isNumericIdentifier s \<or> (isBuildIdentifier s \<and> \<not> list_all isDigit s))"

fun splitOn :: "char \<Rightarrow> string \<Rightarrow> string list" where
  "splitOn sep [] = [[]]"
| "splitOn sep (c # cs) =
     (if c = sep then [] # splitOn sep cs
      else (case splitOn sep cs of [] \<Rightarrow> [[c]] | w # ws \<Rightarrow> (c # w) # ws))"

definition cutFirst :: "char \<Rightarrow> string \<Rightarrow> string \<times> string option" where
  "cutFirst sep s =
     (takeWhile (\<lambda>c. c \<noteq> sep) s,
      case dropWhile (\<lambda>c. c \<noteq> sep) s of [] \<Rightarrow> None | _ # rest \<Rightarrow> Some rest)"

fun joinWith :: "string \<Rightarrow> string list \<Rightarrow> string" where
  "joinWith sep [] = []"
| "joinWith sep [w] = w"
| "joinWith sep (w # ws) = w @ sep @ joinWith sep ws"

definition digitVal :: "char \<Rightarrow> nat" where
  "digitVal c = length (takeWhile (\<lambda>d. d \<noteq> c) ''0123456789'')"

definition parseNat :: "string \<Rightarrow> nat" where
  "parseNat s = foldl (\<lambda>n c. 10 * n + digitVal c) 0 s"

record SemVer =
  major :: nat
  minor :: nat
  patch :: nat
  prerelease :: "string list"
  build :: "string list"

definition buildSemVer :: "string list \<Rightarrow> string list \<Rightarrow> string list \<Rightarrow> SemVer option" where
  "buildSemVer core pre bld =
     (case core of
        [ma, mi, pa] \<Rightarrow>
          if isNumericIdentifier ma \<and> isNumericIdentifier mi \<and> isNumericIdentifier pa
             \<and> list_all isPrereleaseIdentifier pre \<and> list_all isBuildIdentifier bld
          then Some \<lparr> major = parseNat ma, minor = parseNat mi, patch = parseNat pa,
                       prerelease = pre, build = bld \<rparr>
          else None
      | _ \<Rightarrow> None)"

definition parseSemVer :: "string \<Rightarrow> SemVer option" where
  "parseSemVer version =
     (let (front, buildPart) = cutFirst CHR ''+'' version;
          (core, prePart) = cutFirst CHR ''-'' front
      in buildSemVer (splitOn CHR ''.'' core)
           (case prePart of None \<Rightarrow> [] | Some p \<Rightarrow> splitOn CHR ''.'' p)
           (case buildPart of None \<Rightarrow> [] | Some b \<Rightarrow> splitOn CHR ''.'' b))"

fun incSemVer :: "SemVer \<Rightarrow> ReleaseType \<Rightarrow> SemVer" where
  "incSemVer v Major =
     v\<lparr> major := (if minor v \<noteq> 0 \<or> patch v \<noteq> 0 \<or> prerelease v = []
                    then major v + 1 else major v),
        minor := 0, patch := 0, prerelease := [] \<rparr>"
| "incSemVer v Minor =
     v\<lparr> minor := (if patch v \<noteq> 0 \<or> prerelease v = [] then minor v + 1 else minor v),
        patch := 0, prerelease := [] \<rparr>"
| "incSemVer v Patch =
     v\<lparr> patch := (if prerelease v = [] then patch v + 1 else patch v), prerelease := [] \<rparr>"

definition formatSemVer :: "SemVer \<Rightarrow> string" where
  "formatSemVer v =
     showNat (major v) @ ''.'' @ showNat (minor v) @ ''.'' @ showNat (patch v)
       @ (if prerelease v = [] then [] else ''-'' @ joinWith ''.'' (prerelease v))"

definition semver_inc :: "string \<Rightarrow> ReleaseType \<Rightarrow> string option" where
  "semver_inc version release =
     (case parseSemVer version of
        None \<Rightarrow> None
      | Some v \<Rightarrow> Some (formatSemVer (incSemVer v release)))"

section \<open>The tasks of \<^verbatim>\<open>version.ts\<close>\<close>

definition RELEASE_TYPES :: "ReleaseType list" where
  "RELEASE_TYPES = [Patch, Minor, Major]"

definition CHOICES_default :: "ReleaseType list" where
  "CHOICES_default = RELEASE_TYPES"

fun releaseTypeName :: "ReleaseType \<Rightarrow> string" where
  "releaseTypeName Patch = ''patch''"
| "releaseTypeName Minor = ''minor''"
| "releaseTypeName Major = ''major''"

record VersionSelectOption =
  label :: string
  value' :: "string option"
  hint :: "string option"

text \<open>A nullable string inside a template literal: null prints as \<^verbatim>\<open>null\<close>.\<close>

fun showNullable :: "string option \<Rightarrow> string" where
  "showNullable None = ''null''"
| "showNullable (Some s) = s"

definition getIncrementalBumps :: "string \<Rightarrow> VersionSelectOption list" where
  "getIncrementalBumps currentVersion =
     map (\<lambda>increment.
           \<lparr> label = releaseTypeName increment @ '' (''
                       @ showNullable (semver_inc currentVersion increment) @ '')'',
             value' = semver_inc currentVersion increment,
             hint = semver_inc currentVersion increment \<rparr>)
         CHOICES_default"

text \<open>
  Modelled from the spec: the part of \<^verbatim>\<open>KiaraContext\<close> (declared in \<^verbatim>\<open>#/kiara\<close>, not
  among the sources) that the version tasks read: the current version, the optional
  explicit release type and the optional bump strategy.
\<close>

record KiaraContext =
  version_current :: string
  options_releaseType :: "ReleaseType option"
  options_bumpStrategy :: "string option"

record PromptOptions =
  type' :: string
  options :: "VersionSelectOption list"
  initial :: "string option"
  cancel :: string

text \<open>
  The prompt of the logger is the operator's side of the run: a function from the
  message and the options to the promise it settles. With \<^verbatim>\<open>cancel: "reject"\<close> a
  cancelled prompt rejects its promise.
\<close>

type_synonym prompt = "string \<Rightarrow> PromptOptions \<Rightarrow> string option promise"

definition promptError :: "thrown \<Rightarrow> Error" where
  "promptError error =
     Error (case error of ErrorInstance name msg \<Rightarrow> msg
                        | NonError s \<Rightarrow> ''Failed to select version bump'')"

definition promptManualVersion :: "prompt \<Rightarrow> KiaraContext \<Rightarrow> (string option, Error) Result" where
  "promptManualVersion logger_prompt context =
     (let versions = getIncrementalBumps (version_current context)
      in fromPromise
           (logger_prompt ''Recommended version bump''
              \<lparr> type' = ''select'', options = versions,
                initial = value' (versions ! 0), cancel = ''reject'' \<rparr>)
           promptError)"

definition getVersionFromReleaseType :: "string \<Rightarrow> ReleaseType \<Rightarrow> (string option, Error) Result" where
  "getVersionFromReleaseType currentVersion releaseType' =
     mapResult
       (fromPromise (Resolves (semver_inc currentVersion releaseType'))
          (\<lambda>error. Error (''Failed to increment version with release type ''
                             @ releaseTypeName releaseType' @ '': '' @ thrownToString error)))
       (\<lambda>version. version)"

text \<open>The logging taps (\<^verbatim>\<open>andTee\<close>) pass the result through unchanged and are left out.\<close>

definition getManualVersion :: "prompt \<Rightarrow> KiaraContext \<Rightarrow> (string option, Error) Result" where
  "getManualVersion logger_prompt context =
     (case options_releaseType context of
        Some releaseType' \<Rightarrow> getVersionFromReleaseType (version_current context) releaseType'
      | None \<Rightarrow>
          andThen (promptManualVersion logger_prompt context)
            (\<lambda>nextVersion.
               fromPromise (Resolves nextVersion)
                 (\<lambda>error. Error (''Failed to get selected version bump: '' @ thrownToString error))))"

text \<open>
  Modelled from the spec: \<^verbatim>\<open>Bumper.bump\<close> of conventional-recommended-bump, which is not
  part of the sources: it hands the commits to the callback and adds to its answer the
  release-type token of the level, \<^verbatim>\<open>Major -> "major"\<close>, \<^verbatim>\<open>Minor -> "minor"\<close>,
  \<^verbatim>\<open>Patch -> "patch"\<close>; a level outside the table has no token.
\<close>

definition VERSIONS :: "ReleaseType list" where
  "VERSIONS = [Major, Minor, Patch]"

definition bump :: "(Commit list \<Rightarrow> BumperRecommendation) \<Rightarrow> Commit list \<Rightarrow> BumperRecommendation" where
  "bump whatBump commits =
     (let result = whatBump commits
      in result\<lparr> releaseType :=
                   (if level result < length VERSIONS then Some (VERSIONS ! level result)
                    else None) \<rparr>)"

text \<open>
  The commit source is the other input of the run: the promise of the commits read from
  the working tree.
\<close>

definition getConventionalBump :: "Commit list promise \<Rightarrow> (BumperRecommendation, Error) Result" where
  "getConventionalBump fetched =
     fromPromise
       (case fetched of Resolves commits \<Rightarrow> Resolves (bump analyzeBumpLevel commits)
                      | Rejects e \<Rightarrow> Rejects e)
       (\<lambda>error. Error (''Failed to get conventional bump: '' @ thrownToString error))"

definition getVersion :: "string \<Rightarrow> BumperRecommendation \<Rightarrow> (string option, Error) Result" where
  "getVersion currentVersion recommended =
     mapResult
       (fromPromise
          (Resolves (case releaseType recommended of
                       None \<Rightarrow> None
                     | Some release \<Rightarrow> semver_inc currentVersion release))
          (\<lambda>error. Error (''Failed to get version: '' @ thrownToString error)))
       (\<lambda>version. version)"

definition getRecommendedVersion :: "KiaraContext \<Rightarrow> Commit list promise \<Rightarrow> (string option, Error) Result" where
  "getRecommendedVersion context fetched =
     andThen (getConventionalBump fetched)
       (\<lambda>recommendation. getVersion (version_current context) recommendation)"


section \<open>Quantities the statements refer to\<close>

text \<open>
  The counts that the loop of \<^verbatim>\<open>analyzeBumpLevel\<close> accumulates, written as plain list
  functions: the number of notes over all commits, and the number of commits without
  notes whose \<^verbatim>\<open>type\<close> is \<^verbatim>\<open>feat\<close>; and the level reached from a starting level.
\<close>

definition breakingCount :: "Commit list \<Rightarrow> nat" where
  "breakingCount commits = sum_list (map (\<lambda>c. length (notes' c)) commits)"

definition featureCount :: "Commit list \<Rightarrow> nat" where
  "featureCount commits =
     length (filter (\<lambda>c. notes' c = [] \<and> meta c ''type'' = Some (Some ''feat'')) commits)"

definition levelOf :: "Commit list \<Rightarrow> nat \<Rightarrow> nat" where
  "levelOf commits lvl =
     (if \<exists>c \<in> set commits. notes' c \<noteq> [] then 0
      else if (\<exists>c \<in> set commits. meta c ''type'' = Some (Some ''feat'')) \<and> lvl = 2 then 1
      else lvl)"

text \<open>
  A commit as the examples of the specification write it: a \<^verbatim>\<open>type\<close> and its notes,
  every other field null or empty.
\<close>

definition exampleCommit :: "string \<Rightarrow> CommitNote list \<Rightarrow> Commit" where
  "exampleCommit ty ns =
     \<lparr> merge = None, revert = None, header = None, body = None, footer = None,
       notes' = ns, mentions = [], references = [], meta = [''type'' \<mapsto> Some ty] \<rparr>"


section \<open>Decimal numbers\<close>

lemma showNat_digit: "n < 10 \<Longrightarrow> showNat n = [digitChar n]"
  by (simp add: showNat.simps)

lemma showNat_0: "showNat 0 = ''0''" by (simp add: showNat.simps digitChar_def)

lemma showNat_Suc_0: "showNat (Suc 0) = ''1''" by (simp add: showNat.simps digitChar_def)













section \<open>Parsing and incrementing versions\<close>












lemma semver_inc_invalid: "parseSemVer version = None \<Longrightarrow> semver_inc version release = None"
  by (simp add: semver_inc_def)

lemma semver_inc_valid:
  "parseSemVer version = Some v \<Longrightarrow>
   semver_inc version release = Some (formatSemVer (incSemVer v release))"
  by (simp add: semver_inc_def)

lemma parse_not_a_version: "parseSemVer ''not-a-version'' = None"
  by code_simp

lemma inc_1_0_0_major: "semver_inc ''1.0.0'' Major = Some ''2.0.0''"
  by code_simp

lemma inc_2_0_0:
  "semver_inc ''2.0.0'' Patch = Some ''2.0.1''"
  "semver_inc ''2.0.0'' Minor = Some ''2.1.0''"
  "semver_inc ''2.0.0'' Major = Some ''3.0.0''"
  by code_simp+






lemma parse_2_0_0:
  "parseSemVer ''2.0.0'' =
     Some \<lparr>major = 2, minor = 0, patch = 0, prerelease = [], build = []\<rparr>"
  by code_simp

lemma getIncrementalBumps_eq:
  "getIncrementalBumps current =
     [\<lparr>label = ''patch ('' @ showNullable (semver_inc current Patch) @ '')'',
        value' = semver_inc current Patch, hint = semver_inc current Patch\<rparr>,
      \<lparr>label = ''minor ('' @ showNullable (semver_inc current Minor) @ '')'',
        value' = semver_inc current Minor, hint = semver_inc current Minor\<rparr>,
      \<lparr>label = ''major ('' @ showNullable (semver_inc current Major) @ '')'',
        value' = semver_inc current Major, hint = semver_inc current Major\<rparr>]"
  by (simp add: getIncrementalBumps_def CHOICES_default_def RELEASE_TYPES_def)

section \<open>The loop of the classifier\<close>

lemma analyzeLoop_eq:
  "analyzeLoop commits (lvl, b, f) =
     (levelOf commits lvl, b + breakingCount commits, f + featureCount commits)"
proof (induction commits arbitrary: lvl b f)
  case Nil
  show ?case by (simp add: levelOf_def breakingCount_def featureCount_def)
next
  case (Cons c cs)
  show ?case
  proof (cases "notes' c = []")
    case False
    then show ?thesis
      by (simp add: Cons.IH levelOf_def breakingCount_def featureCount_def)
  next
    case True
    then show ?thesis
      by (auto simp add: Cons.IH levelOf_def breakingCount_def featureCount_def)
  qed
qed

lemma breakingCount_perm:
  assumes "mset commits = mset commits'"
  shows "breakingCount commits = breakingCount commits'"
proof -
  have "mset (map (\<lambda>c. length (notes' c)) commits) = mset (map (\<lambda>c. length (notes' c)) commits')"
    using assms by simp
  then have "sum_mset (mset (map (\<lambda>c. length (notes' c)) commits))
      = sum_mset (mset (map (\<lambda>c. length (notes' c)) commits'))"
    by (rule arg_cong)
  then show ?thesis
    unfolding breakingCount_def sum_mset_sum_list .
qed

lemma featureCount_perm:
  assumes "mset commits = mset commits'"
  shows "featureCount commits = featureCount commits'"
proof -
  let ?P = "\<lambda>c. notes' c = [] \<and> meta c ''type'' = Some (Some ''feat'')"
  have "mset (filter ?P commits) = mset (filter ?P commits')"
    using assms by simp
  then have "length (filter ?P commits) = length (filter ?P commits')"
    by (rule mset_eq_length)
  then show ?thesis
    by (simp add: featureCount_def)
qed

lemma example_loop:
  "analyzeLoop [exampleCommit ''fix'' [], exampleCommit ''feat'' [],
      exampleCommit ''feat'' [\<lparr>title = ''BREAKING CHANGE'', text' = ''x''\<rparr>]] (2, 0, 0) = (0, 1, 1)"
  by (simp add: exampleCommit_def)

lemma example_recommendation:
  "analyzeBumpLevel [exampleCommit ''fix'' [], exampleCommit ''feat'' [],
      exampleCommit ''feat'' [\<lparr>title = ''BREAKING CHANGE'', text' = ''x''\<rparr>]] =
     \<lparr>level = 0, reason = ''There is 1 BREAKING CHANGE and 1 features'', releaseType = None\<rparr>"
  by (simp add: analyzeBumpLevel_def exampleCommit_def showNat_Suc_0)

section \<open>The claims\<close>

text \<open>
  Claim C1 says that an invalid current version, such as \<^verbatim>\<open>not-a-version\<close>, makes the
  computation of the next version fail. In \<^verbatim>\<open>getVersionFromReleaseType\<close> and
  \<^verbatim>\<open>getVersion\<close> the increment gives null for such a version, the promise resolves with
  it, and the result is the success \<^verbatim>\<open>Ok(null)\<close>: the error branch is never taken,
  neither with an explicit release type nor in the automatic pipeline.
\<close>

theorem invalid_version_gives_ok_null:
  "getVersionFromReleaseType ''not-a-version'' Patch = Ok None
   \<and> getVersionFromReleaseType ''not-a-version'' Minor = Ok None
   \<and> getVersionFromReleaseType ''not-a-version'' Major = Ok None
   \<and> getVersion ''not-a-version''
        \<lparr>level = 2, reason = ''There are 0 BREAKING CHANGES and 0 features'',
         releaseType = Some Patch\<rparr> = Ok None
   \<and> getManualVersion logger_prompt
        \<lparr>version_current = ''not-a-version'', options_releaseType = Some Patch,
         options_bumpStrategy = None\<rparr> = Ok None
   \<and> getRecommendedVersion
        \<lparr>version_current = ''not-a-version'', options_releaseType = None,
         options_bumpStrategy = None\<rparr> (Resolves []) = Ok None"
  by (simp add: getVersionFromReleaseType_def getVersion_def getManualVersion_def
      getRecommendedVersion_def getConventionalBump_def bump_def VERSIONS_def
      analyzeBumpLevel_def andThen_def fromPromise_def mapResult_def
      semver_inc_invalid parse_not_a_version)

text \<open>
  Claim C2, as stated: for the commits \<^verbatim>\<open>fix\<close>, \<^verbatim>\<open>feat\<close>, \<^verbatim>\<open>feat\<close> with one breaking note
  and the current version \<^verbatim>\<open>1.0.0\<close>, the level is 0 (major), the reason is
  \<^verbatim>\<open>There is 1 BREAKING CHANGE and 2 features\<close> and the version is \<^verbatim>\<open>2.0.0\<close>. This is
  false: the third commit carries a note, so the loop counts it as breaking only, and
  the reason names one feature.
\<close>

theorem pipeline_example_counterexample:
  "\<not> (level (analyzeBumpLevel [exampleCommit ''fix'' [], exampleCommit ''feat'' [],
            exampleCommit ''feat'' [\<lparr>title = ''BREAKING CHANGE'', text' = ''x''\<rparr>]]) = 0
       \<and> reason (analyzeBumpLevel [exampleCommit ''fix'' [], exampleCommit ''feat'' [],
            exampleCommit ''feat'' [\<lparr>title = ''BREAKING CHANGE'', text' = ''x''\<rparr>]])
           = ''There is 1 BREAKING CHANGE and 2 features''
       \<and> getRecommendedVersion
            \<lparr>version_current = ''1.0.0'', options_releaseType = None, options_bumpStrategy = None\<rparr>
            (Resolves [exampleCommit ''fix'' [], exampleCommit ''feat'' [],
               exampleCommit ''feat'' [\<lparr>title = ''BREAKING CHANGE'', text' = ''x''\<rparr>]])
           = Ok (Some ''2.0.0''))"
  by (simp add: example_recommendation)

text \<open>
  Claim C2, amended: for these commits and the current version \<^verbatim>\<open>1.0.0\<close> the level is
  0 (major), the reason is \<^verbatim>\<open>There is 1 BREAKING CHANGE and 1 features\<close> and the
  resolved version is \<^verbatim>\<open>2.0.0\<close>.
\<close>

theorem pipeline_example:
  "level (analyzeBumpLevel [exampleCommit ''fix'' [], exampleCommit ''feat'' [],
            exampleCommit ''feat'' [\<lparr>title = ''BREAKING CHANGE'', text' = ''x''\<rparr>]]) = 0
   \<and> reason (analyzeBumpLevel [exampleCommit ''fix'' [], exampleCommit ''feat'' [],
            exampleCommit ''feat'' [\<lparr>title = ''BREAKING CHANGE'', text' = ''x''\<rparr>]])
       = ''There is 1 BREAKING CHANGE and 1 features''
   \<and> getRecommendedVersion
        \<lparr>version_current = ''1.0.0'', options_releaseType = None, options_bumpStrategy = None\<rparr>
        (Resolves [exampleCommit ''fix'' [], exampleCommit ''feat'' [],
           exampleCommit ''feat'' [\<lparr>title = ''BREAKING CHANGE'', text' = ''x''\<rparr>]])
       = Ok (Some ''2.0.0'')"
  by (simp add: example_recommendation getRecommendedVersion_def getConventionalBump_def
      bump_def VERSIONS_def getVersion_def fromPromise_def mapResult_def andThen_def
      inc_1_0_0_major)

text \<open>
  Claim C3, as stated: a cancelled prompt ends in an outcome of its own, which the
  caller can tell from a failure. This is false: with \<^verbatim>\<open>cancel: "reject"\<close> the
  cancellation is a rejection of the prompt's promise, the error function keeps only
  the message of what was thrown, and a cancellation and a failure with the same
  message give the same result.
\<close>

theorem cancelled_prompt_counterexample:
  "getManualVersion
     (\<lambda>message opts. Rejects (ErrorInstance ''ConsolaPromptCancelledError'' ''Prompt cancelled.''))
     \<lparr>version_current = ''1.0.0'', options_releaseType = None, options_bumpStrategy = None\<rparr>
   = getManualVersion
       (\<lambda>message opts. Rejects (ErrorInstance ''Error'' ''Prompt cancelled.''))
       \<lparr>version_current = ''1.0.0'', options_releaseType = None, options_bumpStrategy = None\<rparr>"
  by (simp add: getManualVersion_def promptManualVersion_def fromPromise_def andThen_def
      promptError_def)

text \<open>
  Claim C3, amended: when no release type is given and the prompt's promise rejects,
  as it does on cancellation, the run ends in \<^verbatim>\<open>Err\<close> with a plain \<^verbatim>\<open>Error\<close> that
  carries the message of the thrown error object, or \<^verbatim>\<open>Failed to select version bump\<close>
  when something else was thrown; no version is produced. This is the one error kind
  of every failure of the prompt.
\<close>

theorem cancelled_prompt_is_error:
  "options_releaseType context = None \<Longrightarrow>
   promptManualVersion (\<lambda>message opts. Rejects e) context = Err (promptError e)
   \<and> getManualVersion (\<lambda>message opts. Rejects e) context = Err (promptError e)
   \<and> promptError (ErrorInstance name msg) = Error msg
   \<and> promptError (NonError s) = Error ''Failed to select version bump''"
  by (simp add: getManualVersion_def promptManualVersion_def fromPromise_def andThen_def
      promptError_def Let_def)

theorem cancelled_prompt_is_error_witness:
  "getManualVersion
     (\<lambda>message opts. Rejects (ErrorInstance ''ConsolaPromptCancelledError'' ''Prompt cancelled.''))
     \<lparr>version_current = ''1.0.0'', options_releaseType = None, options_bumpStrategy = None\<rparr>
   = Err (Error ''Prompt cancelled.'')"
  using cancelled_prompt_is_error
    [of "\<lparr>version_current = ''1.0.0'', options_releaseType = None, options_bumpStrategy = None\<rparr>"
        "ErrorInstance ''ConsolaPromptCancelledError'' ''Prompt cancelled.''"
        "''ConsolaPromptCancelledError''" "''Prompt cancelled.''"]
  by simp

text \<open>
  Claim C4: the level is 0 (major) exactly when some commit has a note; otherwise it
  is 1 (minor) exactly when some commit has the type \<^verbatim>\<open>feat\<close>; otherwise it is 2
  (patch), as for the empty sequence.
\<close>

theorem classify_level:
  "level (analyzeBumpLevel commits) =
     (if \<exists>c \<in> set commits. notes' c \<noteq> [] then 0
      else if \<exists>c \<in> set commits. meta c ''type'' = Some (Some ''feat'') then 1
      else 2)"
  by (simp add: analyzeBumpLevel_def analyzeLoop_eq levelOf_def)

theorem classify_level_witness:
  "level (analyzeBumpLevel [exampleCommit ''fix'' [], exampleCommit ''feat'' [],
        exampleCommit ''fix'' [\<lparr>title = ''BREAKING CHANGE'', text' = ''x''\<rparr>]]) = 0
   \<and> level (analyzeBumpLevel [exampleCommit ''fix'' [], exampleCommit ''feat'' []]) = 1
   \<and> level (analyzeBumpLevel [exampleCommit ''fix'' [], exampleCommit ''chore'' []]) = 2
   \<and> level (analyzeBumpLevel []) = 2"
  using classify_level [of "[exampleCommit ''fix'' [], exampleCommit ''feat'' [],
        exampleCommit ''fix'' [\<lparr>title = ''BREAKING CHANGE'', text' = ''x''\<rparr>]]"]
    classify_level [of "[exampleCommit ''fix'' [], exampleCommit ''feat'' []]"]
    classify_level [of "[exampleCommit ''fix'' [], exampleCommit ''chore'' []]"]
    classify_level [of "[]"]
  by (simp add: exampleCommit_def)

text \<open>
  Claim C5: the reason is \<^verbatim>\<open>There is 1 BREAKING CHANGE and F features\<close> when the
  breaking count is 1 and \<^verbatim>\<open>There are B BREAKING CHANGES and F features\<close> for every
  other count B, with \<^verbatim>\<open>features\<close> in the plural for every F; no commits give
  \<^verbatim>\<open>There are 0 BREAKING CHANGES and 0 features\<close>.
\<close>

theorem classify_reason:
  "reason (analyzeBumpLevel commits) =
     (if breakingCount commits = 1
      then ''There is 1 BREAKING CHANGE and '' @ showNat (featureCount commits) @ '' features''
      else ''There are '' @ showNat (breakingCount commits) @ '' BREAKING CHANGES and ''
             @ showNat (featureCount commits) @ '' features'')
   \<and> reason (analyzeBumpLevel []) = ''There are 0 BREAKING CHANGES and 0 features''"
  by (simp add: analyzeBumpLevel_def analyzeLoop_eq showNat_Suc_0 showNat_0 breakingCount_def featureCount_def)

theorem classify_reason_witness:
  "reason (analyzeBumpLevel [exampleCommit ''feat'' []]) = ''There are 0 BREAKING CHANGES and 1 features''
   \<and> reason (analyzeBumpLevel [exampleCommit ''feat'' [\<lparr>title = ''BREAKING CHANGE'', text' = ''x''\<rparr>]])
       = ''There is 1 BREAKING CHANGE and 0 features''"
  using classify_reason [of "[exampleCommit ''feat'' []]"]
    classify_reason [of "[exampleCommit ''feat'' [\<lparr>title = ''BREAKING CHANGE'', text' = ''x''\<rparr>]]"]
  by (simp add: breakingCount_def featureCount_def exampleCommit_def showNat_0 showNat_Suc_0)

text \<open>
  Claim C6: the recommendation does not depend on the order of the commits: two
  sequences with the same commits, each as often, get the same level and reason.
\<close>

theorem classify_permutation:
  assumes "mset commits = mset commits'"
  shows "analyzeBumpLevel commits = analyzeBumpLevel commits'"
proof -
  have s: "set commits = set commits'" using assms by (rule mset_eq_setD)
  have "levelOf commits 2 = levelOf commits' 2" by (simp add: levelOf_def s)
  moreover have "breakingCount commits = breakingCount commits'"
    using assms by (rule breakingCount_perm)
  moreover have "featureCount commits = featureCount commits'"
    using assms by (rule featureCount_perm)
  ultimately show ?thesis by (simp add: analyzeBumpLevel_def analyzeLoop_eq)
qed

theorem classify_permutation_witness:
  "mset [exampleCommit ''feat'' [], exampleCommit ''fix'' []]
     = mset [exampleCommit ''fix'' [], exampleCommit ''feat'' []]
   \<and> analyzeBumpLevel [exampleCommit ''feat'' [], exampleCommit ''fix'' []]
     = analyzeBumpLevel [exampleCommit ''fix'' [], exampleCommit ''feat'' []]"
proof -
  have m: "mset [exampleCommit ''feat'' [], exampleCommit ''fix'' []]
     = mset [exampleCommit ''fix'' [], exampleCommit ''feat'' []]"
    by (simp add: add_mset_commute)
  from m classify_permutation [OF m] show ?thesis by simp
qed

text \<open>
  Claim C7: for a valid current version the candidates are the patch, minor and major
  increments in this order, each labelled \<^verbatim>\<open>type (version)\<close> with the version as its
  value, and the prompt is opened with the first value as its initial selection; for
  \<^verbatim>\<open>2.0.0\<close> the values are \<^verbatim>\<open>2.0.1\<close>, \<^verbatim>\<open>2.1.0\<close>, \<^verbatim>\<open>3.0.0\<close> and the initial selection
  is \<^verbatim>\<open>2.0.1\<close>.
\<close>

theorem manual_candidates:
  "(parseSemVer current = Some v \<longrightarrow>
      (\<exists>p mi ma.
         semver_inc current Patch = Some p \<and> semver_inc current Minor = Some mi
         \<and> semver_inc current Major = Some ma
         \<and> getIncrementalBumps current =
             [\<lparr>label = ''patch ('' @ p @ '')'', value' = Some p, hint = Some p\<rparr>,
              \<lparr>label = ''minor ('' @ mi @ '')'', value' = Some mi, hint = Some mi\<rparr>,
              \<lparr>label = ''major ('' @ ma @ '')'', value' = Some ma, hint = Some ma\<rparr>]
         \<and> promptManualVersion logger_prompt
               \<lparr>version_current = current, options_releaseType = rt, options_bumpStrategy = bs\<rparr>
             = fromPromise
                 (logger_prompt ''Recommended version bump''
                    \<lparr>type' = ''select'', options = getIncrementalBumps current,
                     initial = Some p, cancel = ''reject''\<rparr>)
                 promptError))
   \<and> map value' (getIncrementalBumps ''2.0.0'') = [Some ''2.0.1'', Some ''2.1.0'', Some ''3.0.0'']
   \<and> map label (getIncrementalBumps ''2.0.0'') = [''patch (2.0.1)'', ''minor (2.1.0)'', ''major (3.0.0)'']
   \<and> promptManualVersion logger_prompt
         \<lparr>version_current = ''2.0.0'', options_releaseType = rt, options_bumpStrategy = bs\<rparr>
       = fromPromise
           (logger_prompt ''Recommended version bump''
              \<lparr>type' = ''select'', options = getIncrementalBumps ''2.0.0'',
               initial = Some ''2.0.1'', cancel = ''reject''\<rparr>)
           promptError"
proof -
  have general: "\<exists>p mi ma.
         semver_inc current Patch = Some p \<and> semver_inc current Minor = Some mi
         \<and> semver_inc current Major = Some ma
         \<and> getIncrementalBumps current =
             [\<lparr>label = ''patch ('' @ p @ '')'', value' = Some p, hint = Some p\<rparr>,
              \<lparr>label = ''minor ('' @ mi @ '')'', value' = Some mi, hint = Some mi\<rparr>,
              \<lparr>label = ''major ('' @ ma @ '')'', value' = Some ma, hint = Some ma\<rparr>]
         \<and> promptManualVersion logger_prompt
               \<lparr>version_current = current, options_releaseType = rt, options_bumpStrategy = bs\<rparr>
             = fromPromise
                 (logger_prompt ''Recommended version bump''
                    \<lparr>type' = ''select'', options = getIncrementalBumps current,
                     initial = Some p, cancel = ''reject''\<rparr>)
                 promptError"
    if "parseSemVer current = Some v"
  proof -
    have "promptManualVersion logger_prompt
               \<lparr>version_current = current, options_releaseType = rt, options_bumpStrategy = bs\<rparr>
             = fromPromise
                 (logger_prompt ''Recommended version bump''
                    \<lparr>type' = ''select'', options = getIncrementalBumps current,
                     initial = semver_inc current Patch, cancel = ''reject''\<rparr>)
                 promptError"
      by (simp add: promptManualVersion_def Let_def) (simp add: getIncrementalBumps_eq)
    then show ?thesis
      using that by (simp add: getIncrementalBumps_eq semver_inc_valid)
  qed
  have vals: "map value' (getIncrementalBumps ''2.0.0'') = [Some ''2.0.1'', Some ''2.1.0'', Some ''3.0.0'']"
    by (simp add: getIncrementalBumps_eq inc_2_0_0)
  have lbls: "map label (getIncrementalBumps ''2.0.0'') = [''patch (2.0.1)'', ''minor (2.1.0)'', ''major (3.0.0)'']"
    by (simp add: getIncrementalBumps_eq inc_2_0_0)
  have dflt: "promptManualVersion logger_prompt
         \<lparr>version_current = ''2.0.0'', options_releaseType = rt, options_bumpStrategy = bs\<rparr>
       = fromPromise
           (logger_prompt ''Recommended version bump''
              \<lparr>type' = ''select'', options = getIncrementalBumps ''2.0.0'',
               initial = Some ''2.0.1'', cancel = ''reject''\<rparr>)
           promptError"
    by (simp add: promptManualVersion_def Let_def) (simp add: getIncrementalBumps_eq inc_2_0_0)
  from general vals lbls dflt show ?thesis by blast
qed

theorem manual_candidates_witness:
  "parseSemVer ''2.0.0'' = Some \<lparr>major = 2, minor = 0, patch = 0, prerelease = [], build = []\<rparr>
   \<and> getIncrementalBumps ''2.0.0'' =
       [\<lparr>label = ''patch (2.0.1)'', value' = Some ''2.0.1'', hint = Some ''2.0.1''\<rparr>,
        \<lparr>label = ''minor (2.1.0)'', value' = Some ''2.1.0'', hint = Some ''2.1.0''\<rparr>,
        \<lparr>label = ''major (3.0.0)'', value' = Some ''3.0.0'', hint = Some ''3.0.0''\<rparr>]
   \<and> promptManualVersion (\<lambda>message opts. Resolves (initial opts))
         \<lparr>version_current = ''2.0.0'', options_releaseType = None, options_bumpStrategy = None\<rparr>
       = Ok (Some ''2.0.1'')"
  using manual_candidates [where current = "''2.0.0''"
      and v = "\<lparr>major = 2, minor = 0, patch = 0, prerelease = [], build = []\<rparr>"
      and logger_prompt = "\<lambda>message opts. Resolves (initial opts)"
      and rt = None and bs = None]
  by (simp add: parse_2_0_0 inc_2_0_0 fromPromise_def)



text \<open>
  Claim C9: the feature count of the loop is the number of commits without notes whose
  type is \<^verbatim>\<open>feat\<close>, and the breaking count is the number of notes: a commit with
  notes adds to the breaking count only, whatever its type.
\<close>

theorem feature_count:
  "snd (snd (analyzeLoop commits (2, 0, 0))) =
     length (filter (\<lambda>c. notes' c = [] \<and> meta c ''type'' = Some (Some ''feat'')) commits)
   \<and> fst (snd (analyzeLoop commits (2, 0, 0))) = sum_list (map (\<lambda>c. length (notes' c)) commits)"
  by (simp add: analyzeLoop_eq breakingCount_def featureCount_def)

theorem feature_count_witness:
  "analyzeLoop [exampleCommit ''feat'' [], exampleCommit ''fix'' [],
      exampleCommit ''feat'' [\<lparr>title = ''BREAKING CHANGE'', text' = ''x''\<rparr>,
                              \<lparr>title = ''BREAKING CHANGE'', text' = ''y''\<rparr>]] (2, 0, 0)
   = (0, 2, 1)"
  using feature_count [of "[exampleCommit ''feat'' [], exampleCommit ''fix'' [],
      exampleCommit ''feat'' [\<lparr>title = ''BREAKING CHANGE'', text' = ''x''\<rparr>,
                              \<lparr>title = ''BREAKING CHANGE'', text' = ''y''\<rparr>]]"]
  by (simp add: exampleCommit_def)

text \<open>
  Claim C10: for every string, valid version or not, \<^verbatim>\<open>getIncrementalBumps\<close> returns
  three options in the order patch, minor, major; for a version that does not parse
  every value is null and the labels read \<^verbatim>\<open>patch (null)\<close>, \<^verbatim>\<open>minor (null)\<close>,
  \<^verbatim>\<open>major (null)\<close>.
\<close>

theorem incremental_bumps_total:
  "length (getIncrementalBumps current) = 3
   \<and> map label (getIncrementalBumps current) =
       [''patch ('' @ showNullable (semver_inc current Patch) @ '')'',
        ''minor ('' @ showNullable (semver_inc current Minor) @ '')'',
        ''major ('' @ showNullable (semver_inc current Major) @ '')'']
   \<and> map value' (getIncrementalBumps current) =
       [semver_inc current Patch, semver_inc current Minor, semver_inc current Major]
   \<and> (parseSemVer current = None \<longrightarrow>
        getIncrementalBumps current =
          [\<lparr>label = ''patch (null)'', value' = None, hint = None\<rparr>,
           \<lparr>label = ''minor (null)'', value' = None, hint = None\<rparr>,
           \<lparr>label = ''major (null)'', value' = None, hint = None\<rparr>])"
  by (simp add: getIncrementalBumps_eq semver_inc_invalid)

theorem incremental_bumps_total_witness:
  "parseSemVer ''not-a-version'' = None
   \<and> getIncrementalBumps ''not-a-version'' =
          [\<lparr>label = ''patch (null)'', value' = None, hint = None\<rparr>,
           \<lparr>label = ''minor (null)'', value' = None, hint = None\<rparr>,
           \<lparr>label = ''major (null)'', value' = None, hint = None\<rparr>]"
  using incremental_bumps_total [of "''not-a-version''"]
  by (simp add: parse_not_a_version)

end
